theory Spec2Isabelle
  imports Main "HOL-Library.Word"
begin

unbundle bit_operations_syntax

section \<open>The format-detecting decoder of liblzma (src/liblzma/common/auto\_decoder.c)\<close>

subsection \<open>Types of the interface\<close>

text \<open>
  The status codes \<open>lzma_ret\<close> and the actions \<open>lzma_action\<close> are declared in the public
  headers of liblzma, which are not part of the file under study. The status type lists
  the codes of the library; the source names \<open>LZMA_OK\<close>, \<open>LZMA_STREAM_END\<close>,
  \<open>LZMA_NO_CHECK\<close>, \<open>LZMA_GET_CHECK\<close>, \<open>LZMA_MEM_ERROR\<close>, \<open>LZMA_OPTIONS_ERROR\<close>,
  \<open>LZMA_DATA_ERROR\<close> and \<open>LZMA_PROG_ERROR\<close>, the others can only come from a nested
  decoder. The actions are the two that \<open>lzma_auto_decoder\<close> enters into
  \<open>supported_actions\<close>.
\<close>

datatype lzma_ret =
    LZMA_OK
  | LZMA_STREAM_END
  | LZMA_NO_CHECK
  | LZMA_UNSUPPORTED_CHECK
  | LZMA_GET_CHECK
  | LZMA_MEM_ERROR
  | LZMA_MEMLIMIT_ERROR
  | LZMA_FORMAT_ERROR
  | LZMA_OPTIONS_ERROR
  | LZMA_DATA_ERROR
  | LZMA_BUF_ERROR
  | LZMA_PROG_ERROR

datatype lzma_action = LZMA_RUN | LZMA_FINISH

text \<open>The anonymous enumeration of \<open>struct lzma_coder_s\<close>.\<close>

datatype sequence = SEQ_INIT | SEQ_CODE | SEQ_FINISH

text \<open>
  \<open>struct lzma_coder_s\<close>. The nested slot \<open>next\<close> holds the stream decoder or the
  LZMA\_Alone decoder; its contents belong to those decoders, so its type is a parameter
  \<open>'n\<close>.
\<close>

record 'n lzma_coder =
  "next" :: 'n
  memlimit :: "64 word"
  flags :: "32 word"
  sequence :: sequence

text \<open>
  The handle \<open>lzma_next_coder *next\<close> that \<open>auto_decoder_init\<close> receives: a pointer to
  the coder (\<open>None\<close> is \<open>NULL\<close>) and the function pointers of the coder installed in it.
  The field \<open>init\<close> is touched by the macro \<open>lzma_next_coder_init\<close> only.
\<close>

datatype funptr =
    Null
  | Auto_decode
  | Auto_decoder_end
  | Auto_decoder_get_check
  | Auto_decoder_init
  | Foreign nat

record 'n lzma_next_coder =
  h_coder :: "'n lzma_coder option"
  h_init :: funptr
  h_code :: funptr
  h_end :: funptr
  h_get_check :: funptr

text \<open>
  A log of the calls that leave the file, in the order they are made. It is kept beside the
  program state and is never read by the program: it only makes visible which
  collaborator was called, and with which configuration arguments.
\<close>

datatype call =
    Stream_decoder_init "64 word" "32 word"
  | Alone_decoder_init "64 word"
  | Next_code lzma_action
  | Next_coder_init
  | Alloc

fun is_init :: "call \<Rightarrow> bool" where
  "is_init (Stream_decoder_init m f) = True"
| "is_init (Alone_decoder_init m) = True"
| "is_init e = False"

text \<open>
  What the file takes from the rest of the library. The flag constants and
  \<open>LZMA_NEXT_CODER_INIT\<close> are macros of headers that are not in the file; the two
  initializers, the macro \<open>lzma_next_coder_init\<close> and \<open>lzma_alloc\<close> are defined
  elsewhere; \<open>next_code\<close> is the call through the function pointer
  \<open>coder->next.code\<close> of the nested decoder. All of them are parameters: the theorems
  below hold for every choice. \<open>'a\<close> is the state behind the \<open>allocator\<close> pointer,
  which every collaborator receives.

  An initializer returns its status, the slot as it leaves it, and the allocator state.
  \<open>next_code\<close> receives the slot, the allocator, \<open>in\<close>, \<open>*in_pos\<close>, \<open>in_size\<close>, \<open>out\<close>,
  \<open>*out_pos\<close>, \<open>out_size\<close> and the action, and returns its status, the slot, the allocator
  and the new \<open>*in_pos\<close>, \<open>out\<close> and \<open>*out_pos\<close>. The file makes this call without
  testing the pointer. A slot has a \<open>code\<close> function only once an initializer has
  installed one: \<open>LZMA_NEXT_CODER_INIT\<close> has none, and an initializer that fails may
  leave none. The call through such a slot does not return, so \<open>next_code\<close> is partial:
  \<open>None\<close> is the call that does not return.
\<close>

record ('n, 'a) env =
  LZMA_TELL_NO_CHECK :: "32 word"
  LZMA_TELL_ANY_CHECK :: "32 word"
  LZMA_CONCATENATED :: "32 word"
  LZMA_SUPPORTED_FLAGS :: "32 word"
  LZMA_NEXT_CODER_INIT :: 'n
  lzma_stream_decoder_init :: "'n \<Rightarrow> 'a \<Rightarrow> 64 word \<Rightarrow> 32 word \<Rightarrow> lzma_ret \<times> 'n \<times> 'a"
  lzma_alone_decoder_init :: "'n \<Rightarrow> 'a \<Rightarrow> 64 word \<Rightarrow> lzma_ret \<times> 'n \<times> 'a"
  next_code :: "'n \<Rightarrow> 'a \<Rightarrow> 8 word list \<Rightarrow> nat \<Rightarrow> nat \<Rightarrow> 8 word list \<Rightarrow> nat \<Rightarrow> nat
    \<Rightarrow> lzma_action \<Rightarrow> (lzma_ret \<times> 'n \<times> 'a \<times> nat \<times> 8 word list \<times> nat) option"
  lzma_next_coder_init :: "'n lzma_next_coder \<Rightarrow> 'a \<Rightarrow> 'n lzma_next_coder \<times> 'a"
  lzma_alloc :: "'a \<Rightarrow> bool \<times> 'a"

text \<open>
  Everything \<open>auto_decode\<close> can change through its pointer arguments: \<open>*coder\<close>,
  \<open>*allocator\<close>, \<open>*in_pos\<close>, the output buffer and \<open>*out_pos\<close>; and the log.
  The input buffer \<open>in\<close> (read only), \<open>in_size\<close>, \<open>out_size\<close> and \<open>action\<close> are passed
  by value. \<open>size_t\<close> positions are natural numbers: the file compares them and never
  computes with them.
\<close>

record ('n, 'a) decode_state =
  coder :: "'n lzma_coder"
  allocator :: 'a
  in_pos :: nat
  out :: "8 word list"
  out_pos :: nat
  calls :: "call list"

subsection \<open>\<open>auto_decode\<close>\<close>

text \<open>\<open>case SEQ_FINISH\<close>, lines 93 to 100.\<close>

definition seq_finish ::
  "('n, 'a) decode_state \<Rightarrow> nat \<Rightarrow> lzma_action \<Rightarrow> lzma_ret \<times> ('n, 'a) decode_state" where
  "seq_finish s in_size action =
     (if in_pos s < in_size then (LZMA_DATA_ERROR, s)
      else ((if action = LZMA_FINISH then LZMA_STREAM_END else LZMA_OK), s))"

text \<open>
  \<open>case SEQ_CODE\<close>, lines 79 to 89, falling through to \<open>SEQ_FINISH\<close>. The result is
  \<open>None\<close> when the call through \<open>coder->next.code\<close> does not return.
\<close>

definition seq_code ::
  "('n, 'a) env \<Rightarrow> ('n, 'a) decode_state \<Rightarrow> 8 word list \<Rightarrow> nat \<Rightarrow> nat \<Rightarrow> lzma_action
    \<Rightarrow> (lzma_ret \<times> ('n, 'a) decode_state) option" where
  "seq_code env s inb in_size out_size action =
     (case next_code env (next (coder s)) (allocator s) inb (in_pos s) in_size
             (out s) (out_pos s) out_size action of
        None \<Rightarrow> None
      | Some (ret, n', a', in_pos', out', out_pos') \<Rightarrow>
          let s1 = s\<lparr>coder := (coder s)\<lparr>next := n'\<rparr>, allocator := a', in_pos := in_pos',
                     out := out', out_pos := out_pos',
                     calls := calls s @ [Next_code action]\<rparr>
          in if ret \<noteq> LZMA_STREAM_END \<or> flags (coder s1) AND LZMA_CONCATENATED env = 0
             then Some (ret, s1)
             else Some (seq_finish (s1\<lparr>coder := (coder s1)\<lparr>sequence := SEQ_FINISH\<rparr>\<rparr>)
                    in_size action))"

text \<open>
  The whole function, lines 39 to 106. \<open>return_if_error(e)\<close> returns the status of \<open>e\<close>
  when it is not \<open>LZMA_OK\<close>. The read \<open>in[*in_pos]\<close> is defined when the buffer holds
  that byte; the result is \<open>None\<close> when it does not (the caller passed an \<open>in_size\<close>
  larger than the buffer), and when the call of the nested decoder does not return.
  The \<open>default\<close> branch is not reachable for a value of the enumeration.
\<close>

definition auto_decode ::
  "('n, 'a) env \<Rightarrow> ('n, 'a) decode_state \<Rightarrow> 8 word list \<Rightarrow> nat \<Rightarrow> nat \<Rightarrow> lzma_action
    \<Rightarrow> (lzma_ret \<times> ('n, 'a) decode_state) option" where
  "auto_decode env s inb in_size out_size action =
     (case sequence (coder s) of
        SEQ_INIT \<Rightarrow>
          if in_pos s \<ge> in_size then Some (LZMA_OK, s)
          else if length inb \<le> in_pos s then None
          else
            let s1 = s\<lparr>coder := (coder s)\<lparr>sequence := SEQ_CODE\<rparr>\<rparr>
            in if inb ! in_pos s1 = 0xFD then
                 (case lzma_stream_decoder_init env (next (coder s1)) (allocator s1)
                         (memlimit (coder s1)) (flags (coder s1)) of
                    (ret, n', a') \<Rightarrow>
                      let s2 = s1\<lparr>coder := (coder s1)\<lparr>next := n'\<rparr>, allocator := a',
                                  calls := calls s1 @ [Stream_decoder_init
                                    (memlimit (coder s1)) (flags (coder s1))]\<rparr>
                      in if ret \<noteq> LZMA_OK then Some (ret, s2)
                         else seq_code env s2 inb in_size out_size action)
               else
                 (case lzma_alone_decoder_init env (next (coder s1)) (allocator s1)
                         (memlimit (coder s1)) of
                    (ret, n', a') \<Rightarrow>
                      let s2 = s1\<lparr>coder := (coder s1)\<lparr>next := n'\<rparr>, allocator := a',
                                  calls := calls s1 @ [Alone_decoder_init
                                    (memlimit (coder s1))]\<rparr>
                      in if ret \<noteq> LZMA_OK then Some (ret, s2)
                         else if flags (coder s2) AND LZMA_TELL_NO_CHECK env \<noteq> 0
                           then Some (LZMA_NO_CHECK, s2)
                         else if flags (coder s2) AND LZMA_TELL_ANY_CHECK env \<noteq> 0
                           then Some (LZMA_GET_CHECK, s2)
                         else seq_code env s2 inb in_size out_size action)
      | SEQ_CODE \<Rightarrow> seq_code env s inb in_size out_size action
      | SEQ_FINISH \<Rightarrow> Some (seq_finish s in_size action))"

subsection \<open>\<open>auto_decoder_init\<close>\<close>

text \<open>
  Lines 127 to 152. The function changes \<open>*next\<close> and the allocator; the result is the
  status, the handle, the allocator state and the log. \<open>lzma_alloc\<close> returns whether it
  found storage; the fields of a fresh coder are all assigned before the function
  returns.
\<close>

definition auto_decoder_init ::
  "('n, 'a) env \<Rightarrow> 'n lzma_next_coder \<Rightarrow> 'a \<Rightarrow> call list \<Rightarrow> 64 word \<Rightarrow> 32 word
    \<Rightarrow> lzma_ret \<times> 'n lzma_next_coder \<times> 'a \<times> call list" where
  "auto_decoder_init env nxt alloc log memlimit' flags' =
     (case lzma_next_coder_init env nxt alloc of
        (nxt1, alloc1) \<Rightarrow>
          let log1 = log @ [Next_coder_init]
          in if flags' AND NOT (LZMA_SUPPORTED_FLAGS env) \<noteq> 0
             then (LZMA_OPTIONS_ERROR, nxt1, alloc1, log1)
             else
               (case h_coder nxt1 of
                  None \<Rightarrow>
                    (case lzma_alloc env alloc1 of
                       (ok, alloc2) \<Rightarrow>
                         if \<not> ok then (LZMA_MEM_ERROR, nxt1, alloc2, log1 @ [Alloc])
                         else (LZMA_OK,
                               nxt1\<lparr>h_coder := Some \<lparr>next = LZMA_NEXT_CODER_INIT env,
                                       memlimit = memlimit', flags = flags',
                                       sequence = SEQ_INIT\<rparr>,
                                     h_code := Auto_decode,
                                     h_end := Auto_decoder_end,
                                     h_get_check := Auto_decoder_get_check\<rparr>,
                               alloc2, log1 @ [Alloc]))
                | Some c \<Rightarrow>
                    (LZMA_OK,
                     nxt1\<lparr>h_coder := Some (c\<lparr>memlimit := memlimit', flags := flags',
                             sequence := SEQ_INIT\<rparr>)\<rparr>,
                     alloc1, log1)))"

subsection \<open>A caller's sequence of calls\<close>

text \<open>
  The order of the states of the enumeration, by their C values.
\<close>

fun seq_index :: "sequence \<Rightarrow> nat" where
  "seq_index SEQ_INIT = 0"
| "seq_index SEQ_CODE = 1"
| "seq_index SEQ_FINISH = 2"

text \<open>
  The caller calls \<open>auto_decode\<close> again and again on the same coder. Before each call it
  chooses the buffers, the two positions, the sizes and the action; the coder, the
  allocator and the log are those the previous call left. The arguments of one call are
  \<open>(in, in_pos, in_size, out, out_pos, out_size, action)\<close>. The result is the list of the
  statuses returned and the last state, or \<open>None\<close> when some call did not return.
\<close>

type_synonym call_args =
  "8 word list \<times> nat \<times> nat \<times> 8 word list \<times> nat \<times> nat \<times> lzma_action"

fun no_input :: "call_args \<Rightarrow> bool" where
  "no_input (inb, ip, in_size, outb, op, out_size, action) = (in_size \<le> ip)"

fun decode_calls ::
  "('n, 'a) env \<Rightarrow> ('n, 'a) decode_state \<Rightarrow> call_args list
    \<Rightarrow> (lzma_ret list \<times> ('n, 'a) decode_state) option" where
  "decode_calls env s [] = Some ([], s)"
| "decode_calls env s ((inb, ip, in_size, outb, op, out_size, action) # cs) =
     (case auto_decode env (s\<lparr>in_pos := ip, out := outb, out_pos := op\<rparr>)
             inb in_size out_size action of
        None \<Rightarrow> None
      | Some (r, s') \<Rightarrow>
          (case decode_calls env s' cs of
             None \<Rightarrow> None
           | Some (rs, s'') \<Rightarrow> Some (r # rs, s'')))"

subsection \<open>Example collaborators\<close>

text \<open>
  Collaborators to run the definitions on. The slot is a number (0 empty, 1 the stream
  decoder, 2 the LZMA\_Alone decoder), the allocator state counts the allocations. Both
  initializers return the status \<open>ri\<close>, and leave the slot empty when \<open>ri\<close> is not
  \<open>LZMA_OK\<close>; the call of the nested decoder does not return on the empty slot, and
  otherwise consumes the whole input and returns \<open>rc\<close>. The macro
  \<open>lzma_next_coder_init\<close> leaves a handle of this decoder as it is and empties any
  other. The flag values are those of the library. The example state has the empty
  slot in \<open>SEQ_INIT\<close> and the stream decoder in the other states.
\<close>

definition example_env :: "lzma_ret \<Rightarrow> lzma_ret \<Rightarrow> (nat, nat) env" where
  "example_env ri rc =
     \<lparr>LZMA_TELL_NO_CHECK = 0x01,
      LZMA_TELL_ANY_CHECK = 0x04,
      LZMA_CONCATENATED = 0x08,
      LZMA_SUPPORTED_FLAGS = 0x0F,
      LZMA_NEXT_CODER_INIT = 0,
      lzma_stream_decoder_init = (\<lambda>n a m f. (ri, (if ri = LZMA_OK then 1 else 0), Suc a)),
      lzma_alone_decoder_init = (\<lambda>n a m. (ri, (if ri = LZMA_OK then 2 else 0), Suc a)),
      next_code = (\<lambda>n a inb ip in_size outb op out_size action.
                     if n = 0 then None
                     else Some (rc, n, a, max ip in_size, outb, op)),
      lzma_next_coder_init = (\<lambda>h a.
         if h_init h = Auto_decoder_init then (h, a)
         else (\<lparr>h_coder = None, h_init = Auto_decoder_init, h_code = Null,
                 h_end = Null, h_get_check = Null\<rparr>, a)),
      lzma_alloc = (\<lambda>a. (True, Suc a))\<rparr>"

definition example_state :: "sequence \<Rightarrow> 32 word \<Rightarrow> nat \<Rightarrow> (nat, nat) decode_state" where
  "example_state q f p =
     \<lparr>coder = \<lparr>next = (if q = SEQ_INIT then 0 else 1), memlimit = 0x4000000,
               flags = f, sequence = q\<rparr>,
      allocator = 0, in_pos = p, out = [], out_pos = 0, calls = []\<rparr>"

definition example_handle :: "sequence \<Rightarrow> 32 word \<Rightarrow> nat lzma_next_coder" where
  "example_handle q f =
     \<lparr>h_coder = Some \<lparr>next = 1, memlimit = 0x4000000, flags = f, sequence = q\<rparr>,
      h_init = Auto_decoder_init, h_code = Auto_decode, h_end = Auto_decoder_end,
      h_get_check = Auto_decoder_get_check\<rparr>"

section \<open>Properties\<close>

subsection \<open>Steps of the state machine\<close>

text \<open>
  When \<open>seq_code\<close> returns, the nested decoder has been called once; the state it leaves
  is \<open>SEQ_FINISH\<close> when the nested decoder ended its stream and \<open>LZMA_CONCATENATED\<close> is
  set, and the state it found otherwise.
\<close>

lemma seq_code_calls:
  assumes "seq_code env s inb in_size out_size action = Some (r, s')"
  shows "calls s' = calls s @ [Next_code action]"
  using assms
  by (auto simp: seq_code_def seq_finish_def Let_def split: option.splits if_splits)

lemma seq_code_sequence:
  assumes "seq_code env s inb in_size out_size action = Some (r, s')"
  shows "sequence (coder s') = SEQ_FINISH \<or> sequence (coder s') = sequence (coder s)"
  using assms
  by (auto simp: seq_code_def seq_finish_def Let_def split: option.splits if_splits)

text \<open>
  A call in \<open>SEQ_CODE\<close> or \<open>SEQ_FINISH\<close> that returns does not go back and has called no
  initializer.
\<close>

lemma after_init_step:
  assumes "sequence (coder s) \<noteq> SEQ_INIT"
    and "auto_decode env s inb in_size out_size action = Some (r, s')"
  shows "seq_index (sequence (coder s)) \<le> seq_index (sequence (coder s')) \<and>
         (\<exists>l. calls s' = calls s @ l \<and> list_all (\<lambda>e. \<not> is_init e) l)"
proof (cases "sequence (coder s)")
  case SEQ_INIT
  with assms(1) show ?thesis by simp
next
  case SEQ_CODE
  with assms(2) have rs: "seq_code env s inb in_size out_size action = Some (r, s')"
    by (simp add: auto_decode_def)
  have "calls s' = calls s @ [Next_code action]"
    using seq_code_calls [OF rs] .
  moreover have "seq_index (sequence (coder s)) \<le> seq_index (sequence (coder s'))"
    using seq_code_sequence [OF rs] SEQ_CODE by auto
  ultimately show ?thesis by simp
next
  case SEQ_FINISH
  with assms(2) show ?thesis by (auto simp: auto_decode_def seq_finish_def split: if_splits)
qed

text \<open>
  A call in \<open>SEQ_INIT\<close> that finds an input byte is the call of one initializer, chosen by
  that byte, on the slot, the allocator and the configuration of the coder. When the
  initializer fails the call returns its status; when it succeeds the call goes on (but
  for the two check flags of the legacy format) as a call in \<open>SEQ_CODE\<close> does on the
  state the initializer left.
\<close>

lemma init_step_stream:
  assumes "sequence (coder s) = SEQ_INIT" and "in_pos s < in_size" and "in_size \<le> length inb"
    and "inb ! in_pos s = 0xFD"
    and "lzma_stream_decoder_init env (next (coder s)) (allocator s)
           (memlimit (coder s)) (flags (coder s)) = (r1, n1, a1)"
  shows "auto_decode env s inb in_size out_size action =
           (if r1 \<noteq> LZMA_OK
            then Some (r1, s\<lparr>coder := (coder s)\<lparr>sequence := SEQ_CODE, next := n1\<rparr>,
                             allocator := a1,
                             calls := calls s @ [Stream_decoder_init (memlimit (coder s))
                                                   (flags (coder s))]\<rparr>)
            else auto_decode env
                   (s\<lparr>coder := (coder s)\<lparr>sequence := SEQ_CODE, next := n1\<rparr>,
                      allocator := a1,
                      calls := calls s @ [Stream_decoder_init (memlimit (coder s))
                                            (flags (coder s))]\<rparr>)
                   inb in_size out_size action)"
  using assms by (simp add: auto_decode_def Let_def)

lemma init_step_alone:
  assumes "sequence (coder s) = SEQ_INIT" and "in_pos s < in_size" and "in_size \<le> length inb"
    and "inb ! in_pos s \<noteq> 0xFD"
    and "lzma_alone_decoder_init env (next (coder s)) (allocator s) (memlimit (coder s))
           = (r2, n2, a2)"
  shows "auto_decode env s inb in_size out_size action =
           (if r2 \<noteq> LZMA_OK
            then Some (r2, s\<lparr>coder := (coder s)\<lparr>sequence := SEQ_CODE, next := n2\<rparr>,
                             allocator := a2,
                             calls := calls s @ [Alone_decoder_init (memlimit (coder s))]\<rparr>)
            else if flags (coder s) AND LZMA_TELL_NO_CHECK env \<noteq> 0
            then Some (LZMA_NO_CHECK,
                       s\<lparr>coder := (coder s)\<lparr>sequence := SEQ_CODE, next := n2\<rparr>,
                         allocator := a2,
                         calls := calls s @ [Alone_decoder_init (memlimit (coder s))]\<rparr>)
            else if flags (coder s) AND LZMA_TELL_ANY_CHECK env \<noteq> 0
            then Some (LZMA_GET_CHECK,
                       s\<lparr>coder := (coder s)\<lparr>sequence := SEQ_CODE, next := n2\<rparr>,
                         allocator := a2,
                         calls := calls s @ [Alone_decoder_init (memlimit (coder s))]\<rparr>)
            else auto_decode env
                   (s\<lparr>coder := (coder s)\<lparr>sequence := SEQ_CODE, next := n2\<rparr>,
                      allocator := a2,
                      calls := calls s @ [Alone_decoder_init (memlimit (coder s))]\<rparr>)
                   inb in_size out_size action)"
  using assms by (simp add: auto_decode_def Let_def)

text \<open>
  When such a call returns, the coder is no longer in \<open>SEQ_INIT\<close>, and the call of the
  initializer is the first call and the only call of an initializer.
\<close>

lemma init_step:
  assumes "sequence (coder s) = SEQ_INIT" and "in_pos s < in_size" and "in_size \<le> length inb"
    and "auto_decode env s inb in_size out_size action = Some (r, s')"
  shows "sequence (coder s') \<noteq> SEQ_INIT \<and>
         (\<exists>rest. calls s' = calls s @
             (if inb ! in_pos s = 0xFD
              then Stream_decoder_init (memlimit (coder s)) (flags (coder s))
              else Alone_decoder_init (memlimit (coder s))) # rest \<and>
           list_all (\<lambda>e. \<not> is_init e) rest)"
  using assms
  by (auto simp: auto_decode_def seq_code_def seq_finish_def Let_def
      split: prod.splits option.splits if_splits)

text \<open>When the chosen initializer fails, the call returns its status in \<open>SEQ_CODE\<close>.\<close>

lemma init_failure_step:
  assumes "sequence (coder s) = SEQ_INIT" and "in_pos s < in_size" and "in_size \<le> length inb"
    and "(if inb ! in_pos s = 0xFD
          then fst (lzma_stream_decoder_init env (next (coder s)) (allocator s)
                 (memlimit (coder s)) (flags (coder s)))
          else fst (lzma_alone_decoder_init env (next (coder s)) (allocator s)
                 (memlimit (coder s)))) = ri"
    and "ri \<noteq> LZMA_OK"
  shows "\<exists>s'. auto_decode env s inb in_size out_size action = Some (ri, s') \<and>
           sequence (coder s') = SEQ_CODE"
  using assms by (auto simp: auto_decode_def Let_def split: if_splits prod.splits)

lemma alone_no_check_step:
  assumes "sequence (coder s) = SEQ_INIT" and "in_pos s < in_size" and "in_size \<le> length inb"
    and "inb ! in_pos s \<noteq> 0xFD"
    and "flags (coder s) AND LZMA_TELL_NO_CHECK env \<noteq> 0"
    and "lzma_alone_decoder_init env (next (coder s)) (allocator s) (memlimit (coder s))
           = (ri, n', a')"
  shows "auto_decode env s inb in_size out_size action =
           Some ((if ri = LZMA_OK then LZMA_NO_CHECK else ri),
                 s\<lparr>coder := (coder s)\<lparr>next := n', sequence := SEQ_CODE\<rparr>, allocator := a',
                   calls := calls s @ [Alone_decoder_init (memlimit (coder s))]\<rparr>)"
  using assms by (simp add: auto_decode_def Let_def)

text \<open>No call that returns goes back in the order of the states.\<close>

lemma any_step:
  assumes "auto_decode env s inb in_size out_size action = Some (r, s')"
  shows "seq_index (sequence (coder s)) \<le> seq_index (sequence (coder s'))"
proof (cases "sequence (coder s) = SEQ_INIT")
  case False
  from after_init_step [OF False assms] show ?thesis by blast
next
  case True
  then show ?thesis by simp
qed

subsection \<open>Sequences of calls\<close>

lemma decode_calls_after_init:
  assumes "sequence (coder s) \<noteq> SEQ_INIT"
    and "decode_calls env s cs = Some (rs, s')"
  shows "sequence (coder s') \<noteq> SEQ_INIT \<and>
         (\<exists>l. calls s' = calls s @ l \<and> list_all (\<lambda>e. \<not> is_init e) l)"
  using assms
proof (induction cs arbitrary: s rs)
  case Nil
  then show ?case by simp
next
  case (Cons c cs)
  obtain inb ip in_size outb op out_size action
    where c: "c = (inb, ip, in_size, outb, op, out_size, action)"
    by (cases c)
  let ?s0 = "s\<lparr>in_pos := ip, out := outb, out_pos := op\<rparr>"
  have s0: "sequence (coder ?s0) \<noteq> SEQ_INIT" using Cons.prems(1) by simp
  from Cons.prems(2) c obtain r s1 rs1 where
    step: "auto_decode env ?s0 inb in_size out_size action = Some (r, s1)"
    and rest: "decode_calls env s1 cs = Some (rs1, s')"
    by (auto split: option.splits)
  from after_init_step [OF s0 step] obtain l1 where
    le: "seq_index (sequence (coder ?s0)) \<le> seq_index (sequence (coder s1))"
    and l1: "calls s1 = calls ?s0 @ l1" "list_all (\<lambda>e. \<not> is_init e) l1"
    by blast
  have s1: "sequence (coder s1) \<noteq> SEQ_INIT"
  proof
    assume "sequence (coder s1) = SEQ_INIT"
    with le have "seq_index (sequence (coder ?s0)) = 0" by simp
    with s0 show False by (cases "sequence (coder ?s0)") simp_all
  qed
  from Cons.IH [OF s1 rest] obtain l2 where
    fin: "sequence (coder s') \<noteq> SEQ_INIT"
    and l2: "calls s' = calls s1 @ l2" "list_all (\<lambda>e. \<not> is_init e) l2"
    by blast
  have "calls s' = calls s @ (l1 @ l2)" using l1(1) l2(1) by simp
  moreover have "list_all (\<lambda>e. \<not> is_init e) (l1 @ l2)" using l1(2) l2(2) by simp
  ultimately show ?case using fin by blast
qed

lemma decode_calls_forward:
  assumes "decode_calls env s cs = Some (rs, s')"
  shows "seq_index (sequence (coder s)) \<le> seq_index (sequence (coder s'))"
  using assms
proof (induction cs arbitrary: s rs)
  case Nil
  then show ?case by simp
next
  case (Cons c cs)
  obtain inb ip in_size outb op out_size action
    where c: "c = (inb, ip, in_size, outb, op, out_size, action)"
    by (cases c)
  let ?s0 = "s\<lparr>in_pos := ip, out := outb, out_pos := op\<rparr>"
  from Cons.prems c obtain r s1 rs1 where
    step: "auto_decode env ?s0 inb in_size out_size action = Some (r, s1)"
    and rest: "decode_calls env s1 cs = Some (rs1, s')"
    by (auto split: option.splits)
  have "seq_index (sequence (coder ?s0)) \<le> seq_index (sequence (coder s1))"
    using any_step [OF step] .
  moreover have "seq_index (sequence (coder s1)) \<le> seq_index (sequence (coder s'))"
    using Cons.IH [OF rest] .
  ultimately show ?case by simp
qed

lemma decode_calls_no_input:
  assumes "sequence (coder s) = SEQ_INIT" and "list_all no_input cs"
  shows "\<exists>s'. decode_calls env s cs = Some (replicate (length cs) LZMA_OK, s') \<and>
           coder s' = coder s \<and> allocator s' = allocator s \<and> calls s' = calls s"
  using assms
proof (induction cs arbitrary: s)
  case Nil
  then show ?case by simp
next
  case (Cons c cs)
  obtain inb ip in_size outb op out_size action
    where c: "c = (inb, ip, in_size, outb, op, out_size, action)"
    by (cases c)
  let ?s0 = "s\<lparr>in_pos := ip, out := outb, out_pos := op\<rparr>"
  have step: "auto_decode env ?s0 inb in_size out_size action = Some (LZMA_OK, ?s0)"
    using Cons.prems c by (simp add: auto_decode_def)
  have "sequence (coder ?s0) = SEQ_INIT" using Cons.prems by simp
  moreover have "list_all no_input cs" using Cons.prems by simp
  ultimately obtain s' where
    rest: "decode_calls env ?s0 cs = Some (replicate (length cs) LZMA_OK, s')"
      "coder s' = coder ?s0" "allocator s' = allocator ?s0" "calls s' = calls ?s0"
    using Cons.IH [of ?s0] by blast
  show ?case using c step rest by simp
qed

subsection \<open>Detection\<close>

text \<open>
  C1. A call in the state \<open>SEQ_INIT\<close> that finds an input byte at \<open>*in_pos\<close>, wherever
  that position lies in the buffer, initializes one decoder, chosen by that byte. When
  the byte is \<open>0xFD\<close> the call is that of \<open>lzma_stream_decoder_init\<close> on the slot and the
  allocator with the configured \<open>memlimit\<close> and \<open>flags\<close>; for every other byte it is that
  of \<open>lzma_alone_decoder_init\<close> with the \<open>memlimit\<close> alone. The slot and the allocator
  that the call leaves are those the initializer returned; its status is returned when
  it is not \<open>LZMA_OK\<close>; when it is \<open>LZMA_OK\<close> the call goes on (but for the two check
  flags of the legacy format) as a call in \<open>SEQ_CODE\<close> does on that state. Whenever the
  call returns, the chosen initializer is the first collaborator called and the only
  initializer called.
\<close>

theorem detection_selects_initializer:
  assumes "sequence (coder s) = SEQ_INIT" and "in_pos s < in_size" and "in_size \<le> length inb"
    and "lzma_stream_decoder_init env (next (coder s)) (allocator s)
           (memlimit (coder s)) (flags (coder s)) = (r1, n1, a1)"
    and "lzma_alone_decoder_init env (next (coder s)) (allocator s) (memlimit (coder s))
           = (r2, n2, a2)"
  shows "auto_decode env s inb in_size out_size action =
           (if inb ! in_pos s = 0xFD then
              (if r1 \<noteq> LZMA_OK
               then Some (r1, s\<lparr>coder := (coder s)\<lparr>sequence := SEQ_CODE, next := n1\<rparr>,
                                allocator := a1,
                                calls := calls s @ [Stream_decoder_init (memlimit (coder s))
                                                      (flags (coder s))]\<rparr>)
               else auto_decode env
                      (s\<lparr>coder := (coder s)\<lparr>sequence := SEQ_CODE, next := n1\<rparr>,
                         allocator := a1,
                         calls := calls s @ [Stream_decoder_init (memlimit (coder s))
                                               (flags (coder s))]\<rparr>)
                      inb in_size out_size action)
            else
              (if r2 \<noteq> LZMA_OK
               then Some (r2, s\<lparr>coder := (coder s)\<lparr>sequence := SEQ_CODE, next := n2\<rparr>,
                                allocator := a2,
                                calls := calls s @
                                  [Alone_decoder_init (memlimit (coder s))]\<rparr>)
               else if flags (coder s) AND LZMA_TELL_NO_CHECK env \<noteq> 0
               then Some (LZMA_NO_CHECK,
                          s\<lparr>coder := (coder s)\<lparr>sequence := SEQ_CODE, next := n2\<rparr>,
                            allocator := a2,
                            calls := calls s @ [Alone_decoder_init (memlimit (coder s))]\<rparr>)
               else if flags (coder s) AND LZMA_TELL_ANY_CHECK env \<noteq> 0
               then Some (LZMA_GET_CHECK,
                          s\<lparr>coder := (coder s)\<lparr>sequence := SEQ_CODE, next := n2\<rparr>,
                            allocator := a2,
                            calls := calls s @ [Alone_decoder_init (memlimit (coder s))]\<rparr>)
               else auto_decode env
                      (s\<lparr>coder := (coder s)\<lparr>sequence := SEQ_CODE, next := n2\<rparr>,
                         allocator := a2,
                         calls := calls s @ [Alone_decoder_init (memlimit (coder s))]\<rparr>)
                      inb in_size out_size action))
         \<and> (\<forall>r s'. auto_decode env s inb in_size out_size action = Some (r, s') \<longrightarrow>
               (\<exists>rest. calls s' = calls s @
                   (if inb ! in_pos s = 0xFD
                    then Stream_decoder_init (memlimit (coder s)) (flags (coder s))
                    else Alone_decoder_init (memlimit (coder s))) # rest \<and>
                  list_all (\<lambda>e. \<not> is_init e) rest))"
proof
  show "auto_decode env s inb in_size out_size action =
           (if inb ! in_pos s = 0xFD then
              (if r1 \<noteq> LZMA_OK
               then Some (r1, s\<lparr>coder := (coder s)\<lparr>sequence := SEQ_CODE, next := n1\<rparr>,
                                allocator := a1,
                                calls := calls s @ [Stream_decoder_init (memlimit (coder s))
                                                      (flags (coder s))]\<rparr>)
               else auto_decode env
                      (s\<lparr>coder := (coder s)\<lparr>sequence := SEQ_CODE, next := n1\<rparr>,
                         allocator := a1,
                         calls := calls s @ [Stream_decoder_init (memlimit (coder s))
                                               (flags (coder s))]\<rparr>)
                      inb in_size out_size action)
            else
              (if r2 \<noteq> LZMA_OK
               then Some (r2, s\<lparr>coder := (coder s)\<lparr>sequence := SEQ_CODE, next := n2\<rparr>,
                                allocator := a2,
                                calls := calls s @
                                  [Alone_decoder_init (memlimit (coder s))]\<rparr>)
               else if flags (coder s) AND LZMA_TELL_NO_CHECK env \<noteq> 0
               then Some (LZMA_NO_CHECK,
                          s\<lparr>coder := (coder s)\<lparr>sequence := SEQ_CODE, next := n2\<rparr>,
                            allocator := a2,
                            calls := calls s @ [Alone_decoder_init (memlimit (coder s))]\<rparr>)
               else if flags (coder s) AND LZMA_TELL_ANY_CHECK env \<noteq> 0
               then Some (LZMA_GET_CHECK,
                          s\<lparr>coder := (coder s)\<lparr>sequence := SEQ_CODE, next := n2\<rparr>,
                            allocator := a2,
                            calls := calls s @ [Alone_decoder_init (memlimit (coder s))]\<rparr>)
               else auto_decode env
                      (s\<lparr>coder := (coder s)\<lparr>sequence := SEQ_CODE, next := n2\<rparr>,
                         allocator := a2,
                         calls := calls s @ [Alone_decoder_init (memlimit (coder s))]\<rparr>)
                      inb in_size out_size action))"
  proof (cases "inb ! in_pos s = 0xFD")
    case True
    from init_step_stream [OF assms(1-3) True assms(4), of out_size action] True
    show ?thesis by simp
  next
    case False
    from init_step_alone [OF assms(1-3) False assms(5), of out_size action] False
    show ?thesis by simp
  qed
  show "\<forall>r s'. auto_decode env s inb in_size out_size action = Some (r, s') \<longrightarrow>
               (\<exists>rest. calls s' = calls s @
                   (if inb ! in_pos s = 0xFD
                    then Stream_decoder_init (memlimit (coder s)) (flags (coder s))
                    else Alone_decoder_init (memlimit (coder s))) # rest \<and>
                  list_all (\<lambda>e. \<not> is_init e) rest)"
    using init_step [OF assms(1-3)] by blast
qed

theorem detection_selects_initializer_witness:
  "sequence (coder (example_state SEQ_INIT 0x08 2)) = SEQ_INIT \<and>
   in_pos (example_state SEQ_INIT 0x08 2) < 3 \<and>
   3 \<le> length [0x00, 0x00, 0xFD :: 8 word] \<and>
   lzma_stream_decoder_init (example_env LZMA_OK LZMA_OK) 0 0 0x4000000 0x08
     = (LZMA_OK, 1, 1) \<and>
   lzma_alone_decoder_init (example_env LZMA_OK LZMA_OK) 0 0 0x4000000 = (LZMA_OK, 2, 1) \<and>
   auto_decode (example_env LZMA_OK LZMA_OK) (example_state SEQ_INIT 0x08 2)
     [0x00, 0x00, 0xFD] 3 0 LZMA_RUN
   = Some (LZMA_OK,
       \<lparr>coder = \<lparr>next = 1, memlimit = 0x4000000, flags = 0x08, sequence = SEQ_CODE\<rparr>,
        allocator = 1, in_pos = 3, out = [], out_pos = 0,
        calls = [Stream_decoder_init 0x4000000 0x08, Next_code LZMA_RUN]\<rparr>) \<and>
   auto_decode (example_env LZMA_OK LZMA_OK) (example_state SEQ_INIT 0x08 2)
     [0xFD, 0xFD, 0x5D] 3 0 LZMA_RUN
   = Some (LZMA_OK,
       \<lparr>coder = \<lparr>next = 2, memlimit = 0x4000000, flags = 0x08, sequence = SEQ_CODE\<rparr>,
        allocator = 1, in_pos = 3, out = [], out_pos = 0,
        calls = [Alone_decoder_init 0x4000000, Next_code LZMA_RUN]\<rparr>)"
proof -
  have h: "sequence (coder (example_state SEQ_INIT 0x08 2)) = SEQ_INIT"
    "in_pos (example_state SEQ_INIT 0x08 2) < 3"
    by (simp_all add: example_state_def)
  have l: "3 \<le> length [0x00, 0x00, 0xFD :: 8 word]" "3 \<le> length [0xFD, 0xFD, 0x5D :: 8 word]"
    by simp_all
  have i1: "lzma_stream_decoder_init (example_env LZMA_OK LZMA_OK)
              (next (coder (example_state SEQ_INIT 0x08 2)))
              (allocator (example_state SEQ_INIT 0x08 2))
              (memlimit (coder (example_state SEQ_INIT 0x08 2)))
              (flags (coder (example_state SEQ_INIT 0x08 2))) = (LZMA_OK, 1, 1)"
    by (simp add: example_state_def example_env_def)
  have i2: "lzma_alone_decoder_init (example_env LZMA_OK LZMA_OK)
              (next (coder (example_state SEQ_INIT 0x08 2)))
              (allocator (example_state SEQ_INIT 0x08 2))
              (memlimit (coder (example_state SEQ_INIT 0x08 2))) = (LZMA_OK, 2, 1)"
    by (simp add: example_state_def example_env_def)
  from detection_selects_initializer [OF h l(1) i1 i2, of 0 LZMA_RUN]
  have a: "auto_decode (example_env LZMA_OK LZMA_OK) (example_state SEQ_INIT 0x08 2)
     [0x00, 0x00, 0xFD] 3 0 LZMA_RUN
   = auto_decode (example_env LZMA_OK LZMA_OK)
       \<lparr>coder = \<lparr>next = 1, memlimit = 0x4000000, flags = 0x08, sequence = SEQ_CODE\<rparr>,
        allocator = 1, in_pos = 2, out = [], out_pos = 0,
        calls = [Stream_decoder_init 0x4000000 0x08]\<rparr>
       [0x00, 0x00, 0xFD] 3 0 LZMA_RUN"
    by (simp add: example_state_def)
  from detection_selects_initializer [OF h l(2) i1 i2, of 0 LZMA_RUN]
  have b: "auto_decode (example_env LZMA_OK LZMA_OK) (example_state SEQ_INIT 0x08 2)
     [0xFD, 0xFD, 0x5D] 3 0 LZMA_RUN
   = auto_decode (example_env LZMA_OK LZMA_OK)
       \<lparr>coder = \<lparr>next = 2, memlimit = 0x4000000, flags = 0x08, sequence = SEQ_CODE\<rparr>,
        allocator = 1, in_pos = 2, out = [], out_pos = 0,
        calls = [Alone_decoder_init 0x4000000]\<rparr>
       [0xFD, 0xFD, 0x5D] 3 0 LZMA_RUN"
    by (simp add: example_state_def example_env_def)
  have j: "lzma_stream_decoder_init (example_env LZMA_OK LZMA_OK) 0 0 0x4000000 0x08
             = (LZMA_OK, 1, 1)"
    "lzma_alone_decoder_init (example_env LZMA_OK LZMA_OK) 0 0 0x4000000 = (LZMA_OK, 2, 1)"
    by (simp_all add: example_env_def)
  show ?thesis
    using h l(1) j
    by (simp add: a b) (simp add: auto_decode_def seq_code_def example_env_def)
qed

text \<open>
  C7. \<open>sequence\<close> is set to \<open>SEQ_CODE\<close> before the initializer is called: when the
  chosen initializer of a call in \<open>SEQ_INIT\<close> that finds an input byte fails with a
  status \<open>ri\<close>, the call returns \<open>ri\<close> and leaves the coder in \<open>SEQ_CODE\<close>. Whenever such
  a call returns, the coder is no longer in \<open>SEQ_INIT\<close>, and along every sequence of
  later calls that return, no call finds the coder in \<open>SEQ_INIT\<close> again and none calls
  an initializer: detection is not run a second time. (A later call need not return:
  after a failed initializer the slot may have no \<open>code\<close> function.)
\<close>

theorem sequence_set_before_initializer:
  assumes "sequence (coder s) = SEQ_INIT" and "in_pos s < in_size" and "in_size \<le> length inb"
    and "(if inb ! in_pos s = 0xFD
          then fst (lzma_stream_decoder_init env (next (coder s)) (allocator s)
                 (memlimit (coder s)) (flags (coder s)))
          else fst (lzma_alone_decoder_init env (next (coder s)) (allocator s)
                 (memlimit (coder s)))) = ri"
  shows "(ri \<noteq> LZMA_OK \<longrightarrow>
            (\<exists>s'. auto_decode env s inb in_size out_size action = Some (ri, s') \<and>
                   sequence (coder s') = SEQ_CODE)) \<and>
         (\<forall>r s'. auto_decode env s inb in_size out_size action = Some (r, s') \<longrightarrow>
            sequence (coder s') \<noteq> SEQ_INIT \<and>
            (\<forall>cs rs s''. decode_calls env s' cs = Some (rs, s'') \<longrightarrow>
               sequence (coder s'') \<noteq> SEQ_INIT \<and>
               (\<exists>l. calls s'' = calls s' @ l \<and> list_all (\<lambda>e. \<not> is_init e) l)))"
proof (intro conjI allI impI)
  assume "ri \<noteq> LZMA_OK"
  from init_failure_step [OF assms this]
  show "\<exists>s'. auto_decode env s inb in_size out_size action = Some (ri, s') \<and>
              sequence (coder s') = SEQ_CODE" .
next
  fix r s'
  assume "auto_decode env s inb in_size out_size action = Some (r, s')"
  from init_step [OF assms(1-3) this]
  show "sequence (coder s') \<noteq> SEQ_INIT" by blast
next
  fix r s' cs rs s''
  assume step: "auto_decode env s inb in_size out_size action = Some (r, s')"
    and later: "decode_calls env s' cs = Some (rs, s'')"
  from init_step [OF assms(1-3) step] have past: "sequence (coder s') \<noteq> SEQ_INIT"
    by blast
  from decode_calls_after_init [OF past later]
  show "sequence (coder s'') \<noteq> SEQ_INIT"
    and "\<exists>l. calls s'' = calls s' @ l \<and> list_all (\<lambda>e. \<not> is_init e) l"
    by blast+
qed

theorem sequence_set_before_initializer_witness:
  "sequence (coder (example_state SEQ_INIT 0x08 0)) = SEQ_INIT \<and>
   in_pos (example_state SEQ_INIT 0x08 0) < 1 \<and> 1 \<le> length [0xFD :: 8 word] \<and>
   fst (lzma_stream_decoder_init (example_env LZMA_MEM_ERROR LZMA_OK) 0 0 0x4000000 0x08)
     = LZMA_MEM_ERROR \<and>
   (\<exists>s'. auto_decode (example_env LZMA_MEM_ERROR LZMA_OK) (example_state SEQ_INIT 0x08 0)
            [0xFD] 1 0 LZMA_RUN = Some (LZMA_MEM_ERROR, s') \<and>
          sequence (coder s') = SEQ_CODE) \<and>
   auto_decode (example_env LZMA_OK LZMA_OK) (example_state SEQ_INIT 0x08 0)
     [0xFD] 1 0 LZMA_RUN
   = Some (LZMA_OK,
       \<lparr>coder = \<lparr>next = 1, memlimit = 0x4000000, flags = 0x08, sequence = SEQ_CODE\<rparr>,
        allocator = 1, in_pos = 1, out = [], out_pos = 0,
        calls = [Stream_decoder_init 0x4000000 0x08, Next_code LZMA_RUN]\<rparr>) \<and>
   decode_calls (example_env LZMA_OK LZMA_OK)
     \<lparr>coder = \<lparr>next = 1, memlimit = 0x4000000, flags = 0x08, sequence = SEQ_CODE\<rparr>,
      allocator = 1, in_pos = 1, out = [], out_pos = 0,
      calls = [Stream_decoder_init 0x4000000 0x08, Next_code LZMA_RUN]\<rparr>
     [([0x00], 0, 1, [], 0, 0, LZMA_RUN)]
   = Some ([LZMA_OK],
       \<lparr>coder = \<lparr>next = 1, memlimit = 0x4000000, flags = 0x08, sequence = SEQ_CODE\<rparr>,
        allocator = 1, in_pos = 1, out = [], out_pos = 0,
        calls = [Stream_decoder_init 0x4000000 0x08, Next_code LZMA_RUN,
                 Next_code LZMA_RUN]\<rparr>) \<and>
   (\<exists>l. [Stream_decoder_init 0x4000000 0x08, Next_code LZMA_RUN, Next_code LZMA_RUN]
          = [Stream_decoder_init 0x4000000 0x08, Next_code LZMA_RUN] @ l \<and>
        list_all (\<lambda>e. \<not> is_init e) l)"
proof -
  have h: "sequence (coder (example_state SEQ_INIT 0x08 0)) = SEQ_INIT"
    "in_pos (example_state SEQ_INIT 0x08 0) < 1" "1 \<le> length [0xFD :: 8 word]"
    by (simp_all add: example_state_def)
  have i: "(if [0xFD :: 8 word] ! in_pos (example_state SEQ_INIT 0x08 0) = 0xFD
          then fst (lzma_stream_decoder_init (example_env LZMA_MEM_ERROR LZMA_OK)
                 (next (coder (example_state SEQ_INIT 0x08 0)))
                 (allocator (example_state SEQ_INIT 0x08 0))
                 (memlimit (coder (example_state SEQ_INIT 0x08 0)))
                 (flags (coder (example_state SEQ_INIT 0x08 0))))
          else fst (lzma_alone_decoder_init (example_env LZMA_MEM_ERROR LZMA_OK)
                 (next (coder (example_state SEQ_INIT 0x08 0)))
                 (allocator (example_state SEQ_INIT 0x08 0))
                 (memlimit (coder (example_state SEQ_INIT 0x08 0))))) = LZMA_MEM_ERROR"
    by (simp add: example_state_def example_env_def)
  have i': "(if [0xFD :: 8 word] ! in_pos (example_state SEQ_INIT 0x08 0) = 0xFD
          then fst (lzma_stream_decoder_init (example_env LZMA_OK LZMA_OK)
                 (next (coder (example_state SEQ_INIT 0x08 0)))
                 (allocator (example_state SEQ_INIT 0x08 0))
                 (memlimit (coder (example_state SEQ_INIT 0x08 0)))
                 (flags (coder (example_state SEQ_INIT 0x08 0))))
          else fst (lzma_alone_decoder_init (example_env LZMA_OK LZMA_OK)
                 (next (coder (example_state SEQ_INIT 0x08 0)))
                 (allocator (example_state SEQ_INIT 0x08 0))
                 (memlimit (coder (example_state SEQ_INIT 0x08 0))))) = LZMA_OK"
    by (simp add: example_state_def example_env_def)
  have j: "fst (lzma_stream_decoder_init (example_env LZMA_MEM_ERROR LZMA_OK) 0 0
             0x4000000 0x08) = LZMA_MEM_ERROR"
    by (simp add: example_env_def)
  have fail: "\<exists>s'. auto_decode (example_env LZMA_MEM_ERROR LZMA_OK)
            (example_state SEQ_INIT 0x08 0) [0xFD] 1 0 LZMA_RUN = Some (LZMA_MEM_ERROR, s') \<and>
          sequence (coder s') = SEQ_CODE"
    using sequence_set_before_initializer [OF h i, of 0 LZMA_RUN] by simp
  have step: "auto_decode (example_env LZMA_OK LZMA_OK) (example_state SEQ_INIT 0x08 0)
     [0xFD] 1 0 LZMA_RUN
   = Some (LZMA_OK,
       \<lparr>coder = \<lparr>next = 1, memlimit = 0x4000000, flags = 0x08, sequence = SEQ_CODE\<rparr>,
        allocator = 1, in_pos = 1, out = [], out_pos = 0,
        calls = [Stream_decoder_init 0x4000000 0x08, Next_code LZMA_RUN]\<rparr>)"
    by (simp add: auto_decode_def seq_code_def example_env_def example_state_def)
  have later: "decode_calls (example_env LZMA_OK LZMA_OK)
     \<lparr>coder = \<lparr>next = 1, memlimit = 0x4000000, flags = 0x08, sequence = SEQ_CODE\<rparr>,
      allocator = 1, in_pos = 1, out = [], out_pos = 0,
      calls = [Stream_decoder_init 0x4000000 0x08, Next_code LZMA_RUN]\<rparr>
     [([0x00], 0, 1, [], 0, 0, LZMA_RUN)]
   = Some ([LZMA_OK],
       \<lparr>coder = \<lparr>next = 1, memlimit = 0x4000000, flags = 0x08, sequence = SEQ_CODE\<rparr>,
        allocator = 1, in_pos = 1, out = [], out_pos = 0,
        calls = [Stream_decoder_init 0x4000000 0x08, Next_code LZMA_RUN,
                 Next_code LZMA_RUN]\<rparr>)"
    by (simp add: auto_decode_def seq_code_def example_env_def)
  from sequence_set_before_initializer [OF h i', of 0 LZMA_RUN] step later
  have "\<exists>l. [Stream_decoder_init 0x4000000 0x08, Next_code LZMA_RUN, Next_code LZMA_RUN]
          = [Stream_decoder_init 0x4000000 0x08, Next_code LZMA_RUN] @ l \<and>
        list_all (\<lambda>e. \<not> is_init e) l"
    by fastforce
  with h j fail step later show ?thesis by blast
qed

text \<open>
  C6. A call in the state \<open>SEQ_INIT\<close> with no input byte available
  (\<open>in_size \<le> *in_pos\<close>) returns \<open>LZMA_OK\<close> and changes nothing: the coder stays in
  \<open>SEQ_INIT\<close>, the allocator state, both positions and the output buffer are the same,
  and no collaborator is called. The input buffer is not read, since the result is the
  same for every buffer, the empty one included. The same holds for any number of such
  calls in a row, whatever buffers the caller passes.
\<close>

theorem init_without_input:
  assumes "sequence (coder s) = SEQ_INIT" and "in_size \<le> in_pos s"
  shows "auto_decode env s inb in_size out_size action = Some (LZMA_OK, s) \<and>
         (\<forall>cs. list_all no_input cs \<longrightarrow>
            (\<exists>s'. decode_calls env s cs = Some (replicate (length cs) LZMA_OK, s') \<and>
                   coder s' = coder s \<and> allocator s' = allocator s \<and>
                   calls s' = calls s))"
proof
  show "auto_decode env s inb in_size out_size action = Some (LZMA_OK, s)"
    using assms by (simp add: auto_decode_def)
  show "\<forall>cs. list_all no_input cs \<longrightarrow>
            (\<exists>s'. decode_calls env s cs = Some (replicate (length cs) LZMA_OK, s') \<and>
                   coder s' = coder s \<and> allocator s' = allocator s \<and>
                   calls s' = calls s)"
    using decode_calls_no_input [OF assms(1)] by blast
qed

theorem init_without_input_witness:
  "sequence (coder (example_state SEQ_INIT 0x08 0)) = SEQ_INIT \<and>
   (0 :: nat) \<le> in_pos (example_state SEQ_INIT 0x08 0) \<and>
   auto_decode (example_env LZMA_OK LZMA_OK) (example_state SEQ_INIT 0x08 0) [] 0 0 LZMA_RUN
     = Some (LZMA_OK, example_state SEQ_INIT 0x08 0) \<and>
   list_all no_input [([], 0, 0, [], 0, 0, LZMA_RUN), ([0xFD], 1, 1, [], 0, 0, LZMA_RUN),
                      ([], 0, 0, [], 0, 0, LZMA_FINISH)] \<and>
   (\<exists>s'. decode_calls (example_env LZMA_OK LZMA_OK) (example_state SEQ_INIT 0x08 0)
            [([], 0, 0, [], 0, 0, LZMA_RUN), ([0xFD], 1, 1, [], 0, 0, LZMA_RUN),
             ([], 0, 0, [], 0, 0, LZMA_FINISH)]
          = Some ([LZMA_OK, LZMA_OK, LZMA_OK], s') \<and>
          coder s' = coder (example_state SEQ_INIT 0x08 0) \<and>
          allocator s' = 0 \<and> calls s' = [])"
proof -
  have h: "sequence (coder (example_state SEQ_INIT 0x08 0)) = SEQ_INIT"
    "(0 :: nat) \<le> in_pos (example_state SEQ_INIT 0x08 0)"
    by (simp_all add: example_state_def)
  have l: "list_all no_input [([], 0, 0, [], 0, 0, LZMA_RUN),
      ([0xFD], 1, 1, [], 0, 0, LZMA_RUN), ([], 0, 0, [], 0, 0, LZMA_FINISH)]"
    by simp
  from init_without_input [OF h, of "example_env LZMA_OK LZMA_OK" "[]" 0 LZMA_RUN] l
  have "auto_decode (example_env LZMA_OK LZMA_OK) (example_state SEQ_INIT 0x08 0) [] 0 0
          LZMA_RUN = Some (LZMA_OK, example_state SEQ_INIT 0x08 0)"
    and "\<exists>s'. decode_calls (example_env LZMA_OK LZMA_OK) (example_state SEQ_INIT 0x08 0)
            [([], 0, 0, [], 0, 0, LZMA_RUN), ([0xFD], 1, 1, [], 0, 0, LZMA_RUN),
             ([], 0, 0, [], 0, 0, LZMA_FINISH)]
          = Some (replicate (length [([] :: 8 word list, 0 :: nat, 0 :: nat,
                    [] :: 8 word list, 0 :: nat, 0 :: nat, LZMA_RUN),
                    ([0xFD], 1, 1, [], 0, 0, LZMA_RUN), ([], 0, 0, [], 0, 0, LZMA_FINISH)])
                  LZMA_OK, s') \<and>
          coder s' = coder (example_state SEQ_INIT 0x08 0) \<and>
          allocator s' = allocator (example_state SEQ_INIT 0x08 0) \<and>
          calls s' = calls (example_state SEQ_INIT 0x08 0)"
    by blast+
  then show ?thesis using h l by (simp add: example_state_def numeral_3_eq_3)
qed

subsection \<open>The legacy format and the check flags\<close>

text \<open>
  C8, as amended. When the byte at \<open>*in_pos\<close> is not \<open>0xFD\<close>, \<open>LZMA_TELL_NO_CHECK\<close> is
  set and \<open>lzma_alone_decoder_init\<close> succeeds, the detecting call returns
  \<open>LZMA_NO_CHECK\<close> at once: the nested decoder is not called, and the output buffer and
  both positions are unchanged, whatever the size of the output buffer. When the
  initializer fails with a status \<open>ri\<close>, the call returns \<open>ri\<close> instead; the concrete
  call after the theorem is such a case.
\<close>

theorem legacy_no_check_reported:
  assumes "sequence (coder s) = SEQ_INIT" and "in_pos s < in_size" and "in_size \<le> length inb"
    and "inb ! in_pos s \<noteq> 0xFD"
    and "flags (coder s) AND LZMA_TELL_NO_CHECK env \<noteq> 0"
    and "lzma_alone_decoder_init env (next (coder s)) (allocator s) (memlimit (coder s))
           = (ri, n', a')"
  shows "auto_decode env s inb in_size out_size action =
           Some ((if ri = LZMA_OK then LZMA_NO_CHECK else ri),
                 s\<lparr>coder := (coder s)\<lparr>next := n', sequence := SEQ_CODE\<rparr>, allocator := a',
                   calls := calls s @ [Alone_decoder_init (memlimit (coder s))]\<rparr>)"
  using alone_no_check_step [OF assms] by simp

theorem legacy_no_check_reported_witness:
  "sequence (coder (example_state SEQ_INIT 0x01 0)) = SEQ_INIT \<and>
   in_pos (example_state SEQ_INIT 0x01 0) < 1 \<and> 1 \<le> length [0x5D :: 8 word] \<and>
   [0x5D :: 8 word] ! in_pos (example_state SEQ_INIT 0x01 0) \<noteq> 0xFD \<and>
   flags (coder (example_state SEQ_INIT 0x01 0))
     AND LZMA_TELL_NO_CHECK (example_env LZMA_OK LZMA_OK) \<noteq> 0 \<and>
   lzma_alone_decoder_init (example_env LZMA_OK LZMA_OK) 0 0 0x4000000 = (LZMA_OK, 2, 1) \<and>
   auto_decode (example_env LZMA_OK LZMA_OK) (example_state SEQ_INIT 0x01 0) [0x5D] 1 0
     LZMA_RUN
   = Some (LZMA_NO_CHECK,
       \<lparr>coder = \<lparr>next = 2, memlimit = 0x4000000, flags = 0x01, sequence = SEQ_CODE\<rparr>,
        allocator = 1, in_pos = 0, out = [], out_pos = 0,
        calls = [Alone_decoder_init 0x4000000]\<rparr>)"
  using legacy_no_check_reported [of "example_state SEQ_INIT 0x01 0" 1 "[0x5D]"
      "example_env LZMA_OK LZMA_OK" LZMA_OK 2 1 0 LZMA_RUN]
  by (simp add: example_state_def example_env_def)

theorem legacy_init_failure_counterexample:
  "[0x5D :: 8 word] ! 0 \<noteq> 0xFD \<and>
   (0x01 :: 32 word) AND LZMA_TELL_NO_CHECK (example_env LZMA_MEM_ERROR LZMA_OK) \<noteq> 0 \<and>
   auto_decode (example_env LZMA_MEM_ERROR LZMA_OK) (example_state SEQ_INIT 0x01 0) [0x5D] 1 0
     LZMA_RUN
   = Some (LZMA_MEM_ERROR,
       \<lparr>coder = \<lparr>next = 0, memlimit = 0x4000000, flags = 0x01, sequence = SEQ_CODE\<rparr>,
        allocator = 1, in_pos = 0, out = [], out_pos = 0,
        calls = [Alone_decoder_init 0x4000000]\<rparr>)"
  by (simp add: auto_decode_def example_env_def example_state_def)

text \<open>
  C10, as amended. When the byte at \<open>*in_pos\<close> is not \<open>0xFD\<close>, both
  \<open>LZMA_TELL_NO_CHECK\<close> and \<open>LZMA_TELL_ANY_CHECK\<close> are set and
  \<open>lzma_alone_decoder_init\<close> succeeds, the detecting call returns \<open>LZMA_NO_CHECK\<close> and
  not \<open>LZMA_GET_CHECK\<close>. When the initializer fails with a status \<open>ri\<close>, the call
  returns \<open>ri\<close>; the concrete call after the theorem is such a case.
\<close>

theorem no_check_has_priority:
  assumes "sequence (coder s) = SEQ_INIT" and "in_pos s < in_size" and "in_size \<le> length inb"
    and "inb ! in_pos s \<noteq> 0xFD"
    and "flags (coder s) AND LZMA_TELL_NO_CHECK env \<noteq> 0"
    and "flags (coder s) AND LZMA_TELL_ANY_CHECK env \<noteq> 0"
    and "fst (lzma_alone_decoder_init env (next (coder s)) (allocator s) (memlimit (coder s)))
           = ri"
  shows "\<exists>s'. auto_decode env s inb in_size out_size action =
           Some ((if ri = LZMA_OK then LZMA_NO_CHECK else ri), s')"
proof -
  obtain n' a' where
    "lzma_alone_decoder_init env (next (coder s)) (allocator s) (memlimit (coder s))
       = (ri, n', a')"
    using assms(7)
    by (cases "lzma_alone_decoder_init env (next (coder s)) (allocator s)
          (memlimit (coder s))") simp
  from alone_no_check_step [OF assms(1-5) this, of out_size action] show ?thesis by simp
qed

theorem no_check_has_priority_witness:
  "sequence (coder (example_state SEQ_INIT 0x05 0)) = SEQ_INIT \<and>
   in_pos (example_state SEQ_INIT 0x05 0) < 1 \<and> 1 \<le> length [0x5D :: 8 word] \<and>
   [0x5D :: 8 word] ! in_pos (example_state SEQ_INIT 0x05 0) \<noteq> 0xFD \<and>
   flags (coder (example_state SEQ_INIT 0x05 0))
     AND LZMA_TELL_NO_CHECK (example_env LZMA_OK LZMA_OK) \<noteq> 0 \<and>
   flags (coder (example_state SEQ_INIT 0x05 0))
     AND LZMA_TELL_ANY_CHECK (example_env LZMA_OK LZMA_OK) \<noteq> 0 \<and>
   fst (lzma_alone_decoder_init (example_env LZMA_OK LZMA_OK) 0 0 0x4000000) = LZMA_OK \<and>
   (\<exists>s'. auto_decode (example_env LZMA_OK LZMA_OK) (example_state SEQ_INIT 0x05 0) [0x5D] 1 0
            LZMA_RUN = Some (LZMA_NO_CHECK, s'))"
  using no_check_has_priority [of "example_state SEQ_INIT 0x05 0" 1 "[0x5D]"
      "example_env LZMA_OK LZMA_OK" LZMA_OK 0 LZMA_RUN]
  by (simp add: example_state_def example_env_def)

theorem both_flags_init_failure_counterexample:
  "[0x5D :: 8 word] ! 0 \<noteq> 0xFD \<and>
   (0x05 :: 32 word) AND LZMA_TELL_NO_CHECK (example_env LZMA_MEM_ERROR LZMA_OK) \<noteq> 0 \<and>
   (0x05 :: 32 word) AND LZMA_TELL_ANY_CHECK (example_env LZMA_MEM_ERROR LZMA_OK) \<noteq> 0 \<and>
   auto_decode (example_env LZMA_MEM_ERROR LZMA_OK) (example_state SEQ_INIT 0x05 0) [0x5D] 1 0
     LZMA_RUN
   = Some (LZMA_MEM_ERROR,
       \<lparr>coder = \<lparr>next = 0, memlimit = 0x4000000, flags = 0x05, sequence = SEQ_CODE\<rparr>,
        allocator = 1, in_pos = 0, out = [], out_pos = 0,
        calls = [Alone_decoder_init 0x4000000]\<rparr>)"
  by (simp add: auto_decode_def example_env_def example_state_def)

subsection \<open>The Code state\<close>

text \<open>
  C3. In the state \<open>SEQ_CODE\<close> the nested decoder is called. The coder moves to
  \<open>SEQ_FINISH\<close> exactly when the nested decoder returns \<open>LZMA_STREAM_END\<close> and
  \<open>LZMA_CONCATENATED\<close> is set. In every other case the call returns the status of the
  nested decoder as it is, the coder stays in \<open>SEQ_CODE\<close>, and the state is the one the
  nested decoder left.
\<close>

theorem code_state_transition:
  assumes "sequence (coder s) = SEQ_CODE"
    and "next_code env (next (coder s)) (allocator s) inb (in_pos s) in_size
           (out s) (out_pos s) out_size action = Some (ret, n', a', ip, outb, op)"
  shows "\<exists>r s'. auto_decode env s inb in_size out_size action = Some (r, s') \<and>
           (if ret = LZMA_STREAM_END \<and> flags (coder s) AND LZMA_CONCATENATED env \<noteq> 0
            then sequence (coder s') = SEQ_FINISH
            else r = ret \<and> sequence (coder s') = SEQ_CODE \<and>
                 s' = s\<lparr>coder := (coder s)\<lparr>next := n'\<rparr>, allocator := a', in_pos := ip,
                         out := outb, out_pos := op,
                         calls := calls s @ [Next_code action]\<rparr>)"
  using assms by (auto simp: auto_decode_def seq_code_def seq_finish_def Let_def)

theorem code_state_transition_witness:
  "sequence (coder (example_state SEQ_CODE 0x08 0)) = SEQ_CODE \<and>
   next_code (example_env LZMA_OK LZMA_STREAM_END) 1 0 [0x00] 0 1 [] 0 0 LZMA_RUN
     = Some (LZMA_STREAM_END, 1, 0, 1, [], 0) \<and>
   (\<exists>r s'. auto_decode (example_env LZMA_OK LZMA_STREAM_END) (example_state SEQ_CODE 0x08 0)
              [0x00] 1 0 LZMA_RUN = Some (r, s') \<and>
            sequence (coder s') = SEQ_FINISH) \<and>
   (\<exists>r s'. auto_decode (example_env LZMA_OK LZMA_STREAM_END) (example_state SEQ_CODE 0x07 0)
              [0x00] 1 0 LZMA_RUN = Some (r, s') \<and>
            r = LZMA_STREAM_END \<and> sequence (coder s') = SEQ_CODE) \<and>
   (\<exists>r s'. auto_decode (example_env LZMA_OK LZMA_BUF_ERROR) (example_state SEQ_CODE 0x08 0)
              [0x00] 1 0 LZMA_RUN = Some (r, s') \<and>
            r = LZMA_BUF_ERROR \<and> sequence (coder s') = SEQ_CODE)"
  using
    code_state_transition [of "example_state SEQ_CODE 0x08 0"
      "example_env LZMA_OK LZMA_STREAM_END" "[0x00]" 1 0 LZMA_RUN
      LZMA_STREAM_END 1 0 1 "[]" 0]
    code_state_transition [of "example_state SEQ_CODE 0x07 0"
      "example_env LZMA_OK LZMA_STREAM_END" "[0x00]" 1 0 LZMA_RUN
      LZMA_STREAM_END 1 0 1 "[]" 0]
    code_state_transition [of "example_state SEQ_CODE 0x08 0"
      "example_env LZMA_OK LZMA_BUF_ERROR" "[0x00]" 1 0 LZMA_RUN
      LZMA_BUF_ERROR 1 0 1 "[]" 0]
  by (simp add: example_state_def example_env_def)

subsection \<open>The Finish state\<close>



subsection \<open>The end of the stream\<close>

text \<open>
  C4, as amended. When \<open>LZMA_CONCATENATED\<close> is set (and the initializers do not
  themselves report \<open>LZMA_STREAM_END\<close>), a call returns \<open>LZMA_STREAM_END\<close> only when the
  action is \<open>LZMA_FINISH\<close>; the status then comes from the state \<open>SEQ_FINISH\<close> with no
  input left. (When \<open>LZMA_CONCATENATED\<close> is not set, the \<open>LZMA_STREAM_END\<close> of the
  nested decoder is returned as it is, also for the action \<open>LZMA_RUN\<close>, as the concrete
  call after the theorem shows.)
\<close>

theorem stream_end_needs_finish:
  assumes "flags (coder s) AND LZMA_CONCATENATED env \<noteq> 0"
    and "fst (lzma_stream_decoder_init env (next (coder s)) (allocator s)
           (memlimit (coder s)) (flags (coder s))) \<noteq> LZMA_STREAM_END"
    and "fst (lzma_alone_decoder_init env (next (coder s)) (allocator s)
           (memlimit (coder s))) \<noteq> LZMA_STREAM_END"
    and "auto_decode env s inb in_size out_size action = Some (LZMA_STREAM_END, s')"
  shows "action = LZMA_FINISH \<and> sequence (coder s') = SEQ_FINISH \<and> in_size \<le> in_pos s'"
  using assms
  by (cases "sequence (coder s)")
    (auto simp: auto_decode_def seq_code_def seq_finish_def Let_def
      split: if_splits prod.splits option.splits)

theorem stream_end_needs_finish_witness:
  "flags (coder (example_state SEQ_INIT 0x08 0))
     AND LZMA_CONCATENATED (example_env LZMA_OK LZMA_STREAM_END) \<noteq> 0 \<and>
   fst (lzma_stream_decoder_init (example_env LZMA_OK LZMA_STREAM_END) 0 0 0x4000000 0x08)
     \<noteq> LZMA_STREAM_END \<and>
   fst (lzma_alone_decoder_init (example_env LZMA_OK LZMA_STREAM_END) 0 0 0x4000000)
     \<noteq> LZMA_STREAM_END \<and>
   auto_decode (example_env LZMA_OK LZMA_STREAM_END) (example_state SEQ_INIT 0x08 0)
     [0xFD] 1 0 LZMA_FINISH
   = Some (LZMA_STREAM_END,
       \<lparr>coder = \<lparr>next = 1, memlimit = 0x4000000, flags = 0x08, sequence = SEQ_FINISH\<rparr>,
        allocator = 1, in_pos = 1, out = [], out_pos = 0,
        calls = [Stream_decoder_init 0x4000000 0x08, Next_code LZMA_FINISH]\<rparr>)"
  using stream_end_needs_finish [of "example_state SEQ_INIT 0x08 0"
      "example_env LZMA_OK LZMA_STREAM_END" "[0xFD]" 1 0 LZMA_FINISH
      "\<lparr>coder = \<lparr>next = 1, memlimit = 0x4000000, flags = 0x08, sequence = SEQ_FINISH\<rparr>,
        allocator = 1, in_pos = 1, out = [], out_pos = 0,
        calls = [Stream_decoder_init 0x4000000 0x08, Next_code LZMA_FINISH]\<rparr>"]
  by (simp add: auto_decode_def seq_code_def seq_finish_def example_env_def example_state_def)

theorem stream_end_on_run_counterexample:
  "auto_decode (example_env LZMA_OK LZMA_STREAM_END) (example_state SEQ_CODE 0 0)
     [0x00] 1 0 LZMA_RUN
   = Some (LZMA_STREAM_END,
       \<lparr>coder = \<lparr>next = 1, memlimit = 0x4000000, flags = 0, sequence = SEQ_CODE\<rparr>,
        allocator = 0, in_pos = 1, out = [], out_pos = 0, calls = [Next_code LZMA_RUN]\<rparr>)"
  by (simp add: auto_decode_def seq_code_def example_env_def example_state_def)

subsection \<open>The order of the states\<close>

text \<open>
  C9. Along every sequence of calls on a coder, \<open>sequence\<close> never goes back: when the
  calls return, the state at the end is not before the state at the start in the order
  \<open>SEQ_INIT\<close>, \<open>SEQ_CODE\<close>, \<open>SEQ_FINISH\<close>. The start is any state, so the same holds
  between any two calls of a sequence. (A call that does not return leaves no state to
  compare.)
\<close>

theorem sequence_moves_forward:
  assumes "decode_calls env s cs = Some (rs, s')"
  shows "seq_index (sequence (coder s)) \<le> seq_index (sequence (coder s'))"
  using decode_calls_forward [OF assms] .

theorem sequence_moves_forward_witness:
  "decode_calls (example_env LZMA_OK LZMA_STREAM_END) (example_state SEQ_INIT 0x08 0)
     [([], 0, 0, [], 0, 0, LZMA_RUN), ([0xFD], 0, 1, [], 0, 0, LZMA_RUN),
      ([0xFD], 1, 1, [], 0, 0, LZMA_FINISH)]
   = Some ([LZMA_OK, LZMA_OK, LZMA_STREAM_END],
       \<lparr>coder = \<lparr>next = 1, memlimit = 0x4000000, flags = 0x08, sequence = SEQ_FINISH\<rparr>,
        allocator = 1, in_pos = 1, out = [], out_pos = 0,
        calls = [Stream_decoder_init 0x4000000 0x08, Next_code LZMA_RUN]\<rparr>) \<and>
   seq_index (sequence (coder (example_state SEQ_INIT 0x08 0))) \<le> seq_index SEQ_FINISH"
proof -
  have run: "decode_calls (example_env LZMA_OK LZMA_STREAM_END) (example_state SEQ_INIT 0x08 0)
     [([], 0, 0, [], 0, 0, LZMA_RUN), ([0xFD], 0, 1, [], 0, 0, LZMA_RUN),
      ([0xFD], 1, 1, [], 0, 0, LZMA_FINISH)]
   = Some ([LZMA_OK, LZMA_OK, LZMA_STREAM_END],
       \<lparr>coder = \<lparr>next = 1, memlimit = 0x4000000, flags = 0x08, sequence = SEQ_FINISH\<rparr>,
        allocator = 1, in_pos = 1, out = [], out_pos = 0,
        calls = [Stream_decoder_init 0x4000000 0x08, Next_code LZMA_RUN]\<rparr>)"
    by (simp add: auto_decode_def seq_code_def seq_finish_def example_env_def
        example_state_def)
  from sequence_moves_forward [OF run] run show ?thesis by simp
qed

subsection \<open>Configuration\<close>

text \<open>
  C5, as amended. When \<open>flags\<close> has a bit outside \<open>LZMA_SUPPORTED_FLAGS\<close>,
  \<open>auto_decoder_init\<close> returns \<open>LZMA_OPTIONS_ERROR\<close> and \<open>lzma_alloc\<close> is not called. The
  macro \<open>lzma_next_coder_init\<close> runs before the flags are tested, and the handle and the
  allocator that the function leaves are those the macro left. So when the macro leaves
  the handle and the allocator as they are, the handle is unchanged: the coder in it,
  with its nested decoder, \<open>memlimit\<close>, \<open>flags\<close> and \<open>sequence\<close>, and its function
  pointers. (A handle that the macro changes stays changed, as the concrete call after
  the theorem shows.)
\<close>

theorem options_error_before_mutation:
  assumes "flags' AND NOT (LZMA_SUPPORTED_FLAGS env) \<noteq> 0"
  shows "auto_decoder_init env nxt alloc log memlimit' flags' =
           (LZMA_OPTIONS_ERROR, fst (lzma_next_coder_init env nxt alloc),
            snd (lzma_next_coder_init env nxt alloc), log @ [Next_coder_init]) \<and>
         (lzma_next_coder_init env nxt alloc = (nxt, alloc) \<longrightarrow>
            auto_decoder_init env nxt alloc log memlimit' flags' =
              (LZMA_OPTIONS_ERROR, nxt, alloc, log @ [Next_coder_init]))"
  using assms by (simp add: auto_decoder_init_def split: prod.splits)

theorem options_error_before_mutation_witness:
  "(0x18 :: 32 word) AND NOT (LZMA_SUPPORTED_FLAGS (example_env LZMA_OK LZMA_OK)) \<noteq> 0 \<and>
   lzma_next_coder_init (example_env LZMA_OK LZMA_OK) (example_handle SEQ_CODE 0x08) 3
     = (example_handle SEQ_CODE 0x08, 3) \<and>
   auto_decoder_init (example_env LZMA_OK LZMA_OK) (example_handle SEQ_CODE 0x08) 3 []
       0x1000 0x18
     = (LZMA_OPTIONS_ERROR, example_handle SEQ_CODE 0x08, 3, [Next_coder_init])"
proof -
  have f: "(0x18 :: 32 word) AND NOT (LZMA_SUPPORTED_FLAGS (example_env LZMA_OK LZMA_OK))
             \<noteq> 0"
    by (simp add: example_env_def)
  have m: "lzma_next_coder_init (example_env LZMA_OK LZMA_OK)
             (example_handle SEQ_CODE 0x08) 3 = (example_handle SEQ_CODE 0x08, 3)"
    by (simp add: example_env_def example_handle_def)
  from options_error_before_mutation [OF f, of "example_handle SEQ_CODE 0x08" 3 "[]" "0x1000"]
    m
  have "auto_decoder_init (example_env LZMA_OK LZMA_OK) (example_handle SEQ_CODE 0x08) 3 []
       0x1000 0x18
     = (LZMA_OPTIONS_ERROR, example_handle SEQ_CODE 0x08, 3, [Next_coder_init])"
    by simp
  with f m show ?thesis by blast
qed

theorem foreign_handle_emptied_counterexample:
  "(0x18 :: 32 word) AND NOT (LZMA_SUPPORTED_FLAGS (example_env LZMA_OK LZMA_OK)) \<noteq> 0 \<and>
   auto_decoder_init (example_env LZMA_OK LZMA_OK)
       \<lparr>h_coder = Some \<lparr>next = 1, memlimit = 0x4000000, flags = 0x08, sequence = SEQ_CODE\<rparr>,
        h_init = Foreign 1, h_code = Foreign 2, h_end = Foreign 3,
        h_get_check = Foreign 4\<rparr>
       3 [] 0x1000 0x18
     = (LZMA_OPTIONS_ERROR,
        \<lparr>h_coder = None, h_init = Auto_decoder_init, h_code = Null, h_end = Null,
         h_get_check = Null\<rparr>,
        3, [Next_coder_init])"
  by (simp add: auto_decoder_init_def example_env_def)

end
